theory Spec2Isabelle
  imports Main
begin

section \<open>Data model of main.go\<close>

text \<open>
  A Go \<^verbatim>\<open>error\<close> value is modelled by its message (what \<^verbatim>\<open>err.Error()\<close> prints);
  a nil error is \<open>None\<close> of \<open>error option\<close>.
\<close>

datatype error = Error string

text \<open>The three struct types of the file. All fields are Go strings (byte sequences).\<close>

record brasilAPIResponse =
  Cep :: string
  State :: string
  City :: string
  Neighborhood :: string
  Street :: string

record viaCEPResponse =
  Cep :: string
  Logradouro :: string
  Bairro :: string
  Localidade :: string
  Uf :: string

record Endereco =
  CEP :: string
  Logradouro :: string
  Bairro :: string
  Cidade :: string
  UF :: string
  Fonte :: string

text \<open>\<^verbatim>\<open>Endereco{}\<close>: the zero value, every field the empty string.\<close>

definition Endereco_zero :: Endereco where
  "Endereco_zero =
     \<lparr>CEP = [], Logradouro = [], Bairro = [], Cidade = [], UF = [], Fonte = []\<rparr>"

subsection \<open>The standard library the two fetch functions call\<close>

text \<open>
  \<^verbatim>\<open>context.Context\<close> values: \<^verbatim>\<open>context.Background()\<close> and
  \<^verbatim>\<open>context.WithTimeout(parent, d)\<close> with \<open>d\<close> a \<^verbatim>\<open>time.Duration\<close> in nanoseconds.
\<close>

datatype Context = Background | WithTimeout Context int

definition Second :: int where
  "Second = 1000000000"

record Request =
  Method :: string
  URL :: string
  Ctx :: Context

record Response =
  StatusCode :: int
  Body :: string

definition MethodGet :: string where
  "MethodGet = ''GET''"

definition StatusOK :: int where
  "StatusOK = 200"

text \<open>
  The network and the JSON decoder are not part of the program: they are a parameter of
  the model. \<open>NewRequestWithContext\<close> and \<open>Do\<close> return an error or a value (Go returns a
  pair of which one is nil). \<open>Decode\<close> fills the variable it is given and returns an
  error or nil: on an error the variable may be left partially filled, so the model
  returns both the variable's contents and the error.
\<close>

record http_world =
  NewRequestWithContext :: "Context \<Rightarrow> string \<Rightarrow> string \<Rightarrow> error + Request"
  Do :: "Request \<Rightarrow> error + Response"
  Decode_brasilAPIResponse :: "string \<Rightarrow> brasilAPIResponse \<times> error option"
  Decode_viaCEPResponse :: "string \<Rightarrow> viaCEPResponse \<times> error option"

text \<open>The verb \<^verbatim>\<open>%d\<close> of package fmt on an int: decimal, with a minus sign.\<close>

fun digits :: "nat \<Rightarrow> string" where
  "digits n =
     (if n < 10 then [char_of (48 + n)]
      else digits (n div 10) @ [char_of (48 + n mod 10)])"

declare digits.simps [simp del]

definition fmt_d :: "int \<Rightarrow> string" where
  "fmt_d i = (if i < 0 then CHR ''-'' # digits (nat (- i)) else digits (nat i))"

section \<open>The two fetch functions (first copy of the program)\<close>

definition buscaBrasilAPI :: "http_world \<Rightarrow> Context \<Rightarrow> string \<Rightarrow> Endereco \<times> error option" where
  "buscaBrasilAPI w ctx cep =
     (let endereco = Endereco_zero;
          url = ''https://brasilapi.com.br/api/cep/v1/'' @ cep
      in case NewRequestWithContext w ctx MethodGet url of
           Inl err \<Rightarrow> (endereco, Some err)
         | Inr req \<Rightarrow>
             (case Do w req of
                Inl err \<Rightarrow> (endereco, Some err)
              | Inr resp \<Rightarrow>
                  if StatusCode resp \<noteq> StatusOK
                  then (endereco,
                        Some (Error (''BrasilAPI retornou status '' @ fmt_d (StatusCode resp))))
                  else
                    (case Decode_brasilAPIResponse w (Body resp) of
                       (data, Some err) \<Rightarrow> (endereco, Some err)
                     | (data, None) \<Rightarrow>
                         (\<lparr>CEP = brasilAPIResponse.Cep data,
                           Logradouro = Street data,
                           Bairro = Neighborhood data,
                           Cidade = City data,
                           UF = State data,
                           Fonte = ''BrasilAPI''\<rparr>, None))))"

definition buscaViaCEP :: "http_world \<Rightarrow> Context \<Rightarrow> string \<Rightarrow> Endereco \<times> error option" where
  "buscaViaCEP w ctx cep =
     (let endereco = Endereco_zero;
          url = ''http://viacep.com.br/ws/'' @ cep @ ''/json/''
      in case NewRequestWithContext w ctx MethodGet url of
           Inl err \<Rightarrow> (endereco, Some err)
         | Inr req \<Rightarrow>
             (case Do w req of
                Inl err \<Rightarrow> (endereco, Some err)
              | Inr resp \<Rightarrow>
                  if StatusCode resp \<noteq> StatusOK
                  then (endereco,
                        Some (Error (''ViaCEP retornou status '' @ fmt_d (StatusCode resp))))
                  else
                    (case Decode_viaCEPResponse w (Body resp) of
                       (data, Some err) \<Rightarrow> (endereco, Some err)
                     | (data, None) \<Rightarrow>
                         (\<lparr>CEP = viaCEPResponse.Cep data,
                           Logradouro = viaCEPResponse.Logradouro data,
                           Bairro = viaCEPResponse.Bairro data,
                           Cidade = Localidade data,
                           UF = Uf data,
                           Fonte = ''ViaCEP''\<rparr>, None))))"

section \<open>The two fetch functions (second copy of the program)\<close>

text \<open>
  The file holds the program twice. The second copy declares the same three struct types
  and the functions below; they are transcribed from the second copy's text.
\<close>

definition buscaBrasilAPI_2 :: "http_world \<Rightarrow> Context \<Rightarrow> string \<Rightarrow> Endereco \<times> error option" where
  "buscaBrasilAPI_2 w ctx cep =
     (let endereco = Endereco_zero;
          url = ''https://brasilapi.com.br/api/cep/v1/'' @ cep
      in case NewRequestWithContext w ctx MethodGet url of
           Inl err \<Rightarrow> (endereco, Some err)
         | Inr req \<Rightarrow>
             (case Do w req of
                Inl err \<Rightarrow> (endereco, Some err)
              | Inr resp \<Rightarrow>
                  if StatusCode resp \<noteq> StatusOK
                  then (endereco,
                        Some (Error (''BrasilAPI retornou status '' @ fmt_d (StatusCode resp))))
                  else
                    (case Decode_brasilAPIResponse w (Body resp) of
                       (data, Some err) \<Rightarrow> (endereco, Some err)
                     | (data, None) \<Rightarrow>
                         (\<lparr>CEP = brasilAPIResponse.Cep data,
                           Logradouro = Street data,
                           Bairro = Neighborhood data,
                           Cidade = City data,
                           UF = State data,
                           Fonte = ''BrasilAPI''\<rparr>, None))))"

definition buscaViaCEP_2 :: "http_world \<Rightarrow> Context \<Rightarrow> string \<Rightarrow> Endereco \<times> error option" where
  "buscaViaCEP_2 w ctx cep =
     (let endereco = Endereco_zero;
          url = ''http://viacep.com.br/ws/'' @ cep @ ''/json/''
      in case NewRequestWithContext w ctx MethodGet url of
           Inl err \<Rightarrow> (endereco, Some err)
         | Inr req \<Rightarrow>
             (case Do w req of
                Inl err \<Rightarrow> (endereco, Some err)
              | Inr resp \<Rightarrow>
                  if StatusCode resp \<noteq> StatusOK
                  then (endereco,
                        Some (Error (''ViaCEP retornou status '' @ fmt_d (StatusCode resp))))
                  else
                    (case Decode_viaCEPResponse w (Body resp) of
                       (data, Some err) \<Rightarrow> (endereco, Some err)
                     | (data, None) \<Rightarrow>
                         (\<lparr>CEP = viaCEPResponse.Cep data,
                           Logradouro = viaCEPResponse.Logradouro data,
                           Bairro = viaCEPResponse.Bairro data,
                           Cidade = Localidade data,
                           UF = Uf data,
                           Fonte = ''ViaCEP''\<rparr>, None))))"

section \<open>The function main\<close>

text \<open>
  \<^verbatim>\<open>main\<close> is written around three literals: the postal code, the duration given to
  \<^verbatim>\<open>context.WithTimeout\<close>, and the goroutines it starts, one per fetch function. The
  model keeps them in a record, so that each copy of \<^verbatim>\<open>main\<close> is one value of it
  and the body of \<^verbatim>\<open>main\<close> is written once, over that record.
\<close>

type_synonym fetch = "http_world \<Rightarrow> Context \<Rightarrow> string \<Rightarrow> Endereco \<times> error option"

record program =
  main_cep :: string
  main_timeout :: int
  main_sources :: "fetch list"

definition main :: program where
  "main = \<lparr>main_cep = ''06341650'', main_timeout = 1 * Second,
            main_sources = [buscaBrasilAPI, buscaViaCEP]\<rparr>"

definition main_2 :: program where
  "main_2 = \<lparr>main_cep = ''06341650'', main_timeout = 1 * Second,
              main_sources = [buscaBrasilAPI_2, buscaViaCEP_2]\<rparr>"

text \<open>\<^verbatim>\<open>ctx, cancel := context.WithTimeout(context.Background(), 1*time.Second)\<close>\<close>

definition ctx_of :: "program \<Rightarrow> Context" where
  "ctx_of p = WithTimeout Background (main_timeout p)"

text \<open>
  Both channels are made with \<^verbatim>\<open>make(chan _, 2)\<close>. A buffered channel is its buffer:
  a send appends when there is room and blocks (\<open>None\<close>) when the buffer is full; a
  receive takes the head. The program has no \<^verbatim>\<open>close\<close> statement.
\<close>

definition chan_cap :: nat where
  "chan_cap = 2"

definition send :: "nat \<Rightarrow> 'a list \<Rightarrow> 'a \<Rightarrow> 'a list option" where
  "send cap buf v = (if length buf < cap then Some (buf @ [v]) else None)"

text \<open>
  The body of each goroutine: call the fetch function, then send the error on
  \<^verbatim>\<open>errChan\<close> if it is not nil, else the address on \<^verbatim>\<open>resultChan\<close>, then return.
\<close>

datatype goroutine = Fetching | Sending Endereco "error option" | Returned

text \<open>The three cases of the select statement, in the order of the source.\<close>

datatype select_case = Ctx_Done | From_resultChan Endereco | From_errChan error

record state =
  ctx_done :: bool
  resultChan :: "Endereco list"
  errChan :: "error list"
  goroutines :: "goroutine list"
  main_taken :: "select_case option"
  log :: "string list"
  exit_status :: "int option"

text \<open>
  The state after the go statements of \<^verbatim>\<open>main\<close>: the context is created (a duration
  that is not positive gives a context that is expired from the start), the channels
  are empty, every goroutine has been started and is in its fetch call, nothing is
  logged. What the goroutines do before \<^verbatim>\<open>main\<close> executes its select statement is
  part of the schedule.
\<close>

definition init :: "program \<Rightarrow> state" where
  "init p =
     \<lparr>ctx_done = (main_timeout p \<le> 0), resultChan = [], errChan = [],
      goroutines = map (\<lambda>_. Fetching) (main_sources p),
      main_taken = None, log = [], exit_status = None\<rparr>"

definition nl :: string where
  "nl = [CHR 0x0A]"

text \<open>
  The cases of the select statement that can proceed: \<^verbatim>\<open>ctx.Done()\<close> once the context
  is done, a channel once its buffer is not empty.
\<close>

definition ready :: "state \<Rightarrow> select_case list" where
  "ready s =
     (if ctx_done s then [Ctx_Done] else []) @
     (case resultChan s of [] \<Rightarrow> [] | e # _ \<Rightarrow> [From_resultChan e]) @
     (case errChan s of [] \<Rightarrow> [] | x # _ \<Rightarrow> [From_errChan x])"

text \<open>
  What each case of the select statement writes with package log (the messages, without
  the time stamp that the logger puts before each): \<^verbatim>\<open>log.Println\<close> of the timeout
  message; two \<^verbatim>\<open>log.Printf\<close> for an address; one \<^verbatim>\<open>log.Printf\<close> with \<^verbatim>\<open>%v\<close> for
  an error.
\<close>

fun log_of :: "select_case \<Rightarrow> string list" where
  "log_of Ctx_Done = [''Timeout: Nenhuma resposta recebida em 1 segundo.'' @ nl]"
| "log_of (From_resultChan e) =
     [''Resultado recebido da '' @ Fonte e @ '':'' @ nl,
      ''CEP: '' @ CEP e @ nl @ ''Logradouro: '' @ Logradouro e @ nl @
      ''Bairro: '' @ Bairro e @ nl @ ''Cidade: '' @ Cidade e @ nl @
      ''UF: '' @ UF e @ nl]"
| "log_of (From_errChan (Error msg)) = [''Erro ao consultar: '' @ msg @ nl]"

text \<open>
  After the chosen case \<^verbatim>\<open>main\<close> returns: the deferred \<^verbatim>\<open>cancel()\<close> runs and the
  process exits; a Go program whose \<^verbatim>\<open>main\<close> returns exits with status 0.
\<close>

definition main_returns :: "state \<Rightarrow> state" where
  "main_returns s = s\<lparr>ctx_done := True, exit_status := Some 0\<rparr>"

text \<open>
  The body of each case. The two receiving cases take the head of the buffer and call
  \<^verbatim>\<open>cancel()\<close> before they log; the timeout case only logs.
\<close>

fun run_case :: "select_case \<Rightarrow> state \<Rightarrow> state" where
  "run_case Ctx_Done s =
     main_returns
       (s\<lparr>main_taken := Some Ctx_Done,
          log := log s @ log_of Ctx_Done\<rparr>)"
| "run_case (From_resultChan e) s =
     main_returns
       (s\<lparr>resultChan := tl (resultChan s),
          ctx_done := True,
          main_taken := Some (From_resultChan e),
          log := log s @ log_of (From_resultChan e)\<rparr>)"
| "run_case (From_errChan err) s =
     main_returns
       (s\<lparr>errChan := tl (errChan s),
          ctx_done := True,
          main_taken := Some (From_errChan err),
          log := log s @ log_of (From_errChan err)\<rparr>)"

declare run_case.simps [simp del]

text \<open>
  One atomic step of the running program:
  \<^item> \<open>Deadline\<close>: the timer of the context fires;
  \<^item> \<open>Fetch_returns i w\<close>: the call of the fetch function in goroutine \<open>i\<close> returns, the
    network having behaved as \<open>w\<close>;
  \<^item> \<open>Sends i\<close>: goroutine \<open>i\<close> executes its send statement and returns;
  \<^item> \<open>Select n\<close>: \<^verbatim>\<open>main\<close> executes the select statement, \<open>n\<close> being the pseudo-random
    number with which the runtime chooses among the cases that can proceed.
  A step that cannot be taken (a goroutine blocked on a full channel, a select with no
  case that can proceed, a statement already executed) is \<open>None\<close>.
\<close>

datatype event = Deadline | Fetch_returns nat http_world | Sends nat | Select nat

fun step :: "program \<Rightarrow> event \<Rightarrow> state \<Rightarrow> state option" where
  "step p Deadline s = Some (s\<lparr>ctx_done := True\<rparr>)"
| "step p (Fetch_returns i w) s =
     (if i < length (main_sources p) \<and> i < length (goroutines s) \<and> goroutines s ! i = Fetching
      then (case (main_sources p ! i) w (ctx_of p) (main_cep p) of
              (e, err) \<Rightarrow> Some (s\<lparr>goroutines := (goroutines s)[i := Sending e err]\<rparr>))
      else None)"
| "step p (Sends i) s =
     (if i < length (goroutines s) then
        (case goroutines s ! i of
           Sending e (Some err) \<Rightarrow>
             (case send chan_cap (errChan s) err of
                None \<Rightarrow> None
              | Some buf \<Rightarrow>
                  Some (s\<lparr>errChan := buf, goroutines := (goroutines s)[i := Returned]\<rparr>))
         | Sending e None \<Rightarrow>
             (case send chan_cap (resultChan s) e of
                None \<Rightarrow> None
              | Some buf \<Rightarrow>
                  Some (s\<lparr>resultChan := buf, goroutines := (goroutines s)[i := Returned]\<rparr>))
         | _ \<Rightarrow> None)
      else None)"
| "step p (Select n) s =
     (if main_taken s \<noteq> None then None
      else (case ready s of
              [] \<Rightarrow> None
            | c # cs \<Rightarrow> Some (run_case ((c # cs) ! (n mod length (c # cs))) s)))"

text \<open>A schedule is a list of events; it runs as long as each step can be taken.\<close>

fun exec :: "program \<Rightarrow> event list \<Rightarrow> state \<Rightarrow> state option" where
  "exec p [] s = Some s"
| "exec p (ev # evs) s =
     (case step p ev s of None \<Rightarrow> None | Some s' \<Rightarrow> exec p evs s')"


fun is_select :: "event \<Rightarrow> bool" where
  "is_select (Select n) = True"
| "is_select _ = False"

text \<open>Goroutines that have not executed their send statement yet.\<close>

definition pending :: "goroutine list \<Rightarrow> nat" where
  "pending gs = length (filter (\<lambda>g. g \<noteq> Returned) gs)"

text \<open>
  The number of buffered messages plus the number of goroutines that have not sent yet,
  bounded by \<open>n\<close>.
\<close>

definition chan_bound :: "nat \<Rightarrow> state \<Rightarrow> bool" where
  "chan_bound n s \<longleftrightarrow>
     length (resultChan s) + length (errChan s) + pending (goroutines s) \<le> n"

subsection \<open>Concrete networks, for running the model\<close>

text \<open>
  \<open>world_ok\<close> creates every request and answers it with status 200 and the requested
  URL as the body; its decoders put the body in the field \<^verbatim>\<open>cep\<close>, so that the URL a
  fetch function asked for can be read in its result. \<open>world_404\<close> answers 404;
  \<open>world_bad_json\<close> has decoders that fail after they have filled one field.
\<close>

definition world_ok :: http_world where
  "world_ok =
     \<lparr>NewRequestWithContext = (\<lambda>c m u. Inr \<lparr>Method = m, URL = u, Ctx = c\<rparr>),
      Do = (\<lambda>req. Inr \<lparr>StatusCode = 200, Body = URL req\<rparr>),
      Decode_brasilAPIResponse = (\<lambda>b.
        (\<lparr>brasilAPIResponse.Cep = b, State = ''SP'', City = ''Barueri'',
          Neighborhood = ''Vila Flora'', Street = ''Rua Joao Marcos''\<rparr>, None)),
      Decode_viaCEPResponse = (\<lambda>b.
        (\<lparr>viaCEPResponse.Cep = b, viaCEPResponse.Logradouro = ''Rua Joao Marcos'',
          viaCEPResponse.Bairro = ''Vila Flora'', Localidade = ''Barueri'', Uf = ''SP''\<rparr>,
         None))\<rparr>"

definition world_404 :: http_world where
  "world_404 = world_ok\<lparr>Do := (\<lambda>req. Inr \<lparr>StatusCode = 404, Body = ''{}''\<rparr>)\<rparr>"

definition world_bad_json :: http_world where
  "world_bad_json =
     world_ok\<lparr>
       Decode_brasilAPIResponse := (\<lambda>b.
         (\<lparr>brasilAPIResponse.Cep = ''06341'', State = [], City = [],
           Neighborhood = [], Street = []\<rparr>, Some (Error ''unexpected EOF''))),
       Decode_viaCEPResponse := (\<lambda>b.
         (\<lparr>viaCEPResponse.Cep = ''06341'', viaCEPResponse.Logradouro = [],
           viaCEPResponse.Bairro = [], Localidade = [], Uf = []\<rparr>,
          Some (Error ''unexpected EOF'')))\<rparr>"

text \<open>A network on which a request can be created for the listed URLs only.\<close>

definition world_only :: "string list \<Rightarrow> http_world" where
  "world_only urls =
     world_ok\<lparr>NewRequestWithContext := (\<lambda>c m u.
       if u \<in> set urls then Inr \<lparr>Method = m, URL = u, Ctx = c\<rparr>
       else Inl (Error ''unsupported URL''))\<rparr>"

text \<open>
  \<^verbatim>\<open>http.NewRequestWithContext\<close> parses the URL it is given with \<^verbatim>\<open>url.Parse\<close>, which
  rejects, among others, a URL with an ASCII control character (a byte below 0x20, or
  0x7f) before its first \<^verbatim>\<open>#\<close>. \<open>world_url_check\<close> is a network with that one check
  (its error is named by the cause in the library's message, which the library
  precedes with the operation and the quoted URL) and a transport that says when it is
  called.
\<close>

definition stringContainsCTLByte :: "string \<Rightarrow> bool" where
  "stringContainsCTLByte s = list_ex (\<lambda>b. (of_char b :: nat) < 0x20 \<or> (of_char b :: nat) = 0x7f) s"

definition world_url_check :: http_world where
  "world_url_check =
     world_ok\<lparr>NewRequestWithContext := (\<lambda>c m u.
       if stringContainsCTLByte (takeWhile (\<lambda>b. b \<noteq> CHR ''#'') u)
       then Inl (Error ''net/url: invalid control character in URL'')
       else Inr \<lparr>Method = m, URL = u, Ctx = c\<rparr>),
       Do := (\<lambda>req. Inl (Error ''transport called''))\<rparr>"

section \<open>Facts about single steps and schedules\<close>

lemma exec_append:
  "exec p (t @ u) s = (case exec p t s of None \<Rightarrow> None | Some s' \<Rightarrow> exec p u s')"
  by (induction t arbitrary: s) (auto split: option.splits)

lemma exec_snoc:
  "exec p (t @ [ev]) s = (case exec p t s of None \<Rightarrow> None | Some s' \<Rightarrow> step p ev s')"
  by (simp add: exec_append split: option.splits)

lemma run_case_fields:
  "main_taken (run_case c s) = Some c"
  "log (run_case c s) = log s @ log_of c"
  "exit_status (run_case c s) = Some 0"
  "goroutines (run_case c s) = goroutines s"
  "ctx_done (run_case c s)"
  by (cases "(c, s)" rule: run_case.cases; simp add: run_case.simps main_returns_def)+

lemma run_case_chans:
  "length (resultChan (run_case c s)) \<le> length (resultChan s)"
  "length (errChan (run_case c s)) \<le> length (errChan s)"
  "resultChan (run_case Ctx_Done s) = resultChan s"
  "errChan (run_case Ctx_Done s) = errChan s"
  by (cases "(c, s)" rule: run_case.cases; simp add: run_case.simps main_returns_def)+

lemma step_Fetch_Some:
  assumes "step p (Fetch_returns i w) s = Some s'"
  shows "i < length (goroutines s) \<and> goroutines s ! i = Fetching \<and>
         (\<exists>e err. (main_sources p ! i) w (ctx_of p) (main_cep p) = (e, err) \<and>
            s' = s\<lparr>goroutines := (goroutines s)[i := Sending e err]\<rparr>)"
  using assms by (auto split: if_splits prod.splits)

lemma step_Sends_Some:
  assumes "step p (Sends i) s = Some s'"
  shows "i < length (goroutines s) \<and>
         (\<exists>e err. goroutines s ! i = Sending e err \<and>
            (case err of
               None \<Rightarrow> length (resultChan s) < chan_cap \<and>
                 s' = s\<lparr>resultChan := resultChan s @ [e],
                         goroutines := (goroutines s)[i := Returned]\<rparr>
             | Some x \<Rightarrow> length (errChan s) < chan_cap \<and>
                 s' = s\<lparr>errChan := errChan s @ [x],
                         goroutines := (goroutines s)[i := Returned]\<rparr>))"
  using assms
  by (auto simp: send_def split: if_splits goroutine.splits option.splits)

lemma step_Select_Some:
  assumes "step p (Select n) s = Some s'"
  shows "main_taken s = None \<and> (\<exists>c \<in> set (ready s). s' = run_case c s)"
proof -
  from assms have m: "main_taken s = None"
    by (auto split: if_splits)
  from assms m obtain c cs where r: "ready s = c # cs"
    and s': "s' = run_case ((c # cs) ! (n mod length (c # cs))) s"
    by (auto split: list.splits)
  have "(c # cs) ! (n mod length (c # cs)) \<in> set (c # cs)"
    by (rule nth_mem) simp
  with r s' m show ?thesis by auto
qed

lemma pending_update_keep:
  "i < length gs \<Longrightarrow> gs ! i \<noteq> Returned \<Longrightarrow> g \<noteq> Returned \<Longrightarrow>
   pending (gs[i := g]) = pending gs"
  unfolding pending_def
  by (induction gs arbitrary: i) (auto split: nat.splits simp: nth_Cons list_update_code)

lemma pending_update_Returned:
  "i < length gs \<Longrightarrow> gs ! i \<noteq> Returned \<Longrightarrow>
   Suc (pending (gs[i := Returned])) = pending gs"
  unfolding pending_def
  by (induction gs arbitrary: i) (auto split: nat.splits simp: nth_Cons)

lemma pending_pos:
  "i < length gs \<Longrightarrow> gs ! i \<noteq> Returned \<Longrightarrow> 0 < pending gs"
  unfolding pending_def
  by (metis (mono_tags, lifting) filter_empty_conv length_greater_0_conv nth_mem)

lemma pending_init: "pending (goroutines (init p)) = length (main_sources p)"
  by (simp add: pending_def init_def)

lemma step_chan_bound:
  assumes "step p ev s = Some s'" "chan_bound n s"
  shows "chan_bound n s'"
proof (cases ev)
  case Deadline
  with assms show ?thesis by (auto simp: chan_bound_def)
next
  case (Fetch_returns i w)
  with assms(1) have "i < length (goroutines s) \<and> goroutines s ! i = Fetching \<and>
         (\<exists>e err. s' = s\<lparr>goroutines := (goroutines s)[i := Sending e err]\<rparr>)"
    using step_Fetch_Some by blast
  with assms(2) show ?thesis
    by (auto simp: chan_bound_def pending_update_keep)
next
  case (Sends i)
  with assms(1) obtain e err where i: "i < length (goroutines s)"
    and g: "goroutines s ! i = Sending e err"
    and c: "(case err of
               None \<Rightarrow> length (resultChan s) < chan_cap \<and>
                 s' = s\<lparr>resultChan := resultChan s @ [e],
                         goroutines := (goroutines s)[i := Returned]\<rparr>
             | Some x \<Rightarrow> length (errChan s) < chan_cap \<and>
                 s' = s\<lparr>errChan := errChan s @ [x],
                         goroutines := (goroutines s)[i := Returned]\<rparr>)"
    using step_Sends_Some by blast
  from i g have "Suc (pending ((goroutines s)[i := Returned])) = pending (goroutines s)"
    by (simp add: pending_update_Returned)
  with c assms(2) show ?thesis
    by (cases err) (auto simp: chan_bound_def)
next
  case (Select n)
  with assms(1) obtain c where "s' = run_case c s"
    using step_Select_Some by blast
  with assms(2) show ?thesis
    using run_case_chans(1,2)[of c s]
    by (simp add: chan_bound_def run_case_fields)
qed

lemma exec_chan_bound:
  "exec p t s = Some s' \<Longrightarrow> chan_bound n s \<Longrightarrow> chan_bound n s'"
  by (induction t arbitrary: s) (auto split: option.splits dest: step_chan_bound)

lemma init_chan_bound: "chan_bound (length (main_sources p)) (init p)"
  by (simp add: chan_bound_def pending_init) (simp add: init_def)



lemma Sending_can_send:
  assumes "chan_bound n s" "n \<le> chan_cap" "i < length (goroutines s)"
    "goroutines s ! i = Sending e err"
  shows "\<exists>s'. step p (Sends i) s = Some s'"
proof -
  from assms(3,4) have "0 < pending (goroutines s)"
    by (simp add: pending_pos)
  with assms(1,2) have "length (resultChan s) < chan_cap" "length (errChan s) < chan_cap"
    by (auto simp: chan_bound_def)
  with assms(3,4) show ?thesis
    by (cases err) (auto simp: send_def)
qed

lemma step_other_fields:
  assumes "step p ev s = Some s'" "\<not> is_select ev"
  shows "main_taken s' = main_taken s \<and> log s' = log s \<and> exit_status s' = exit_status s"
proof (cases ev)
  case Deadline
  with assms show ?thesis by auto
next
  case (Fetch_returns i w)
  with assms have "\<exists>e err. s' = s\<lparr>goroutines := (goroutines s)[i := Sending e err]\<rparr>"
    using step_Fetch_Some by blast
  then show ?thesis by auto
next
  case (Sends i)
  with assms obtain e err where
    "(case err of
               None \<Rightarrow> length (resultChan s) < chan_cap \<and>
                 s' = s\<lparr>resultChan := resultChan s @ [e],
                         goroutines := (goroutines s)[i := Returned]\<rparr>
             | Some x \<Rightarrow> length (errChan s) < chan_cap \<and>
                 s' = s\<lparr>errChan := errChan s @ [x],
                         goroutines := (goroutines s)[i := Returned]\<rparr>)"
    using step_Sends_Some by blast
  then show ?thesis by (cases err) auto
next
  case (Select n)
  with assms show ?thesis by simp
qed

lemma step_select_fields:
  assumes "step p ev s = Some s'" "is_select ev"
  shows "main_taken s = None \<and>
         (\<exists>c. main_taken s' = Some c \<and> log s' = log s @ log_of c \<and> exit_status s' = Some 0)"
proof -
  from assms(2) obtain n where "ev = Select n" by (cases ev) auto
  with assms(1) have "main_taken s = None \<and> (\<exists>c \<in> set (ready s). s' = run_case c s)"
    using step_Select_Some by blast
  then show ?thesis by (auto simp: run_case_fields)
qed

lemma step_taken_stable:
  assumes "step p ev s = Some s'" "main_taken s = Some c"
  shows "\<not> is_select ev \<and> main_taken s' = Some c \<and> log s' = log s \<and>
         exit_status s' = exit_status s"
proof -
  have "\<not> is_select ev"
    using step_select_fields [OF assms(1)] assms(2) by auto
  then show ?thesis
    using step_other_fields [OF assms(1)] assms(2) by simp
qed

lemma exec_taken_stable:
  "exec p u s = Some s' \<Longrightarrow> main_taken s = Some c \<Longrightarrow>
   main_taken s' = Some c \<and> log s' = log s \<and> exit_status s' = exit_status s \<and>
   filter is_select u = []"
proof (induction u arbitrary: s)
  case Nil
  then show ?case by simp
next
  case (Cons ev u)
  from Cons.prems(1) obtain s1 where s1: "step p ev s = Some s1" and r: "exec p u s1 = Some s'"
    by (auto split: option.splits)
  from step_taken_stable [OF s1 Cons.prems(2)] Cons.IH [OF r] show ?case
    by simp
qed

lemma exec_outcome:
  assumes "exec p t (init p) = Some s"
  shows "(main_taken s = None \<and> log s = [] \<and> exit_status s = None \<and> filter is_select t = []) \<or>
         (\<exists>c. main_taken s = Some c \<and> log s = log_of c \<and> exit_status s = Some 0 \<and>
              length (filter is_select t) = 1)"
  using assms
proof (induction t arbitrary: s rule: rev_induct)
  case Nil
  then show ?case by (auto simp: init_def)
next
  case (snoc ev t)
  from snoc.prems obtain s1 where t: "exec p t (init p) = Some s1" and e: "step p ev s1 = Some s"
    by (auto simp: exec_snoc split: option.splits)
  note ih = snoc.IH [OF t]
  show ?case
  proof (cases "is_select ev")
    case True
    from step_select_fields [OF e True] ih show ?thesis
      using True by auto
  next
    case False
    from step_other_fields [OF e False] ih show ?thesis
      using False by auto
  qed
qed

lemma deadline_then_select:
  assumes "main_taken s = None"
  shows "\<exists>s'. exec p [Deadline, Select n] s = Some s' \<and> main_taken s' \<noteq> None"
proof -
  obtain cs where r: "ready (s\<lparr>ctx_done := True\<rparr>) = Ctx_Done # cs"
    by (simp add: ready_def)
  with assms have "exec p [Deadline, Select n] s =
      Some (run_case ((Ctx_Done # cs) ! (n mod length (Ctx_Done # cs))) (s\<lparr>ctx_done := True\<rparr>))"
    by simp
  then show ?thesis by (simp add: run_case_fields)
qed

lemma exec_init_chan_bound:
  "exec p t (init p) = Some s \<Longrightarrow> chan_bound (length (main_sources p)) s"
  using exec_chan_bound init_chan_bound by blast




lemma ready_not_done:
  "\<not> ctx_done s \<Longrightarrow> Ctx_Done \<notin> set (ready s)"
  by (auto simp: ready_def split: list.splits)

section \<open>The claims\<close>

text \<open>
  Claim C1. In every schedule of the program, \<^verbatim>\<open>main\<close> executes at most one case of
  its select statement; what is logged is exactly what that one case writes (the timeout
  message, the address, or the error); as long as no case has run, the deadline followed
  by the select statement runs one; and once a case has run, no later event (a goroutine
  whose fetch returns, or which sends, afterwards) changes the case taken, the log or
  the exit status.
\<close>

theorem race_exactly_one_outcome:
  assumes "exec p t (init p) = Some s"
  shows "length (filter is_select t) \<le> 1 \<and>
    ((main_taken s = None \<and> log s = [] \<and> exit_status s = None \<and> filter is_select t = []) \<or>
     (\<exists>c. main_taken s = Some c \<and> log s = log_of c \<and> length (filter is_select t) = 1)) \<and>
    (main_taken s = None \<longrightarrow>
       (\<forall>n. \<exists>s'. exec p [Deadline, Select n] s = Some s' \<and> main_taken s' \<noteq> None)) \<and>
    (\<forall>c u s'. main_taken s = Some c \<and> exec p u s = Some s' \<longrightarrow>
       main_taken s' = Some c \<and> log s' = log s \<and> exit_status s' = exit_status s \<and>
       filter is_select u = [])"
proof (intro conjI)
  from exec_outcome [OF assms] show "length (filter is_select t) \<le> 1" by auto
  from exec_outcome [OF assms]
  show "(main_taken s = None \<and> log s = [] \<and> exit_status s = None \<and> filter is_select t = []) \<or>
     (\<exists>c. main_taken s = Some c \<and> log s = log_of c \<and> length (filter is_select t) = 1)"
    by auto
  show "main_taken s = None \<longrightarrow>
       (\<forall>n. \<exists>s'. exec p [Deadline, Select n] s = Some s' \<and> main_taken s' \<noteq> None)"
    using deadline_then_select by blast
  show "\<forall>c u s'. main_taken s = Some c \<and> exec p u s = Some s' \<longrightarrow>
       main_taken s' = Some c \<and> log s' = log s \<and> exit_status s' = exit_status s \<and>
       filter is_select u = []"
    using exec_taken_stable by blast
qed

text \<open>
  A run of \<^verbatim>\<open>main\<close>: the first goroutine succeeds and \<^verbatim>\<open>main\<close> takes its address;
  the second then fails with status 404 and sends its error, which changes nothing.
\<close>

theorem race_exactly_one_outcome_witness:
  "\<exists>s s'. exec main [Fetch_returns 0 world_ok, Sends 0, Select 0] (init main) = Some s \<and>
     exec main [Fetch_returns 1 world_404, Sends 1] s = Some s' \<and>
     main_taken s \<noteq> None \<and> main_taken s' = main_taken s \<and> log s' = log s \<and>
     exit_status s' = exit_status s"
proof -
  define T where "T = [Fetch_returns 0 world_ok, Sends 0, Select 0]"
  define U where "U = [Fetch_returns 1 world_404, Sends 1]"
  have "exec main (T @ U) (init main) \<noteq> None"
    unfolding T_def U_def by code_simp
  then obtain s s' where
    s: "exec main T (init main) = Some s" and s': "exec main U s = Some s'"
    unfolding exec_append by (auto split: option.splits)
  note th = race_exactly_one_outcome [OF s]
  have "filter is_select T \<noteq> []"
    unfolding T_def by simp
  with th [THEN conjunct2, THEN conjunct1]
  obtain c where c: "main_taken s = Some c"
    by blast
  from th [THEN conjunct2, THEN conjunct2, THEN conjunct2] c s'
  have "main_taken s' = Some c \<and> log s' = log s \<and> exit_status s' = exit_status s"
    by blast
  with s s' c have "exec main T (init main) = Some s \<and> exec main U s = Some s' \<and>
     main_taken s \<noteq> None \<and> main_taken s' = main_taken s \<and> log s' = log s \<and>
     exit_status s' = exit_status s"
    by simp
  then show ?thesis unfolding T_def U_def by blast
qed

text \<open>
  Claim C2, as stated, fails. The first goroutine succeeds and sends its address; then
  the deadline fires; then \<^verbatim>\<open>main\<close> executes its select statement. Two cases can
  proceed, and with the choice 0 the runtime takes \<^verbatim>\<open>ctx.Done()\<close>: the timeout is
  logged while the address stays in \<^verbatim>\<open>resultChan\<close>.
\<close>

theorem timeout_chosen_over_enqueued_success_counterexample:
  "map_option main_taken
     (exec main [Fetch_returns 0 world_ok, Sends 0, Deadline, Select 0] (init main)) =
     Some (Some Ctx_Done) \<and>
   map_option resultChan
     (exec main [Fetch_returns 0 world_ok, Sends 0, Deadline, Select 0] (init main)) =
     Some [\<lparr>CEP = ''https://brasilapi.com.br/api/cep/v1/06341650'',
            Logradouro = ''Rua Joao Marcos'', Bairro = ''Vila Flora'', Cidade = ''Barueri'',
            UF = ''SP'', Fonte = ''BrasilAPI''\<rparr>] \<and>
   map_option log
     (exec main [Fetch_returns 0 world_ok, Sends 0, Deadline, Select 0] (init main)) =
     Some [''Timeout: Nenhuma resposta recebida em 1 segundo.'' @ nl]"
  by code_simp

text \<open>
  Claim C2, amended. Let an address be enqueued on \<^verbatim>\<open>resultChan\<close> when \<^verbatim>\<open>main\<close>
  executes its select statement. If the context is not done, the timeout case is never
  taken (and with an empty \<^verbatim>\<open>errChan\<close> the address is taken). If the context is done
  as well, both the timeout case and the address can be taken, depending on the
  runtime's choice; the timeout case reads neither channel: there is no drain.
\<close>

theorem select_picks_any_ready_case:
  assumes "main_taken s = None" "resultChan s = e # r"
  shows "(\<not> ctx_done s \<longrightarrow>
            (\<exists>s'. step p (Select n) s = Some s' \<and> main_taken s' \<noteq> Some Ctx_Done)) \<and>
         (\<not> ctx_done s \<and> errChan s = [] \<longrightarrow>
            (\<exists>s'. step p (Select n) s = Some s' \<and> main_taken s' = Some (From_resultChan e))) \<and>
         (ctx_done s \<longrightarrow>
            (\<exists>s'. step p (Select 0) s = Some s' \<and> main_taken s' = Some Ctx_Done \<and>
                  resultChan s' = resultChan s \<and> errChan s' = errChan s) \<and>
            (\<exists>s'. step p (Select 1) s = Some s' \<and> main_taken s' = Some (From_resultChan e)))"
proof (intro conjI impI)
  assume nd: "\<not> ctx_done s"
  from assms have "ready s \<noteq> []"
    by (simp add: ready_def)
  then obtain c cs where r: "ready s = c # cs"
    by (cases "ready s") auto
  let ?c = "(c # cs) ! (n mod length (c # cs))"
  have "?c \<in> set (ready s)"
    unfolding r by (rule nth_mem) simp
  with nd have "?c \<noteq> Ctx_Done"
    using ready_not_done by metis
  moreover have "step p (Select n) s = Some (run_case ?c s)"
    using assms(1) r by simp
  ultimately show "\<exists>s'. step p (Select n) s = Some s' \<and> main_taken s' \<noteq> Some Ctx_Done"
    by (simp add: run_case_fields)
next
  assume "\<not> ctx_done s \<and> errChan s = []"
  with assms have "ready s = [From_resultChan e]"
    by (simp add: ready_def)
  with assms(1)
  show "\<exists>s'. step p (Select n) s = Some s' \<and> main_taken s' = Some (From_resultChan e)"
    by (simp add: run_case_fields)
next
  assume d: "ctx_done s"
  with assms obtain cs where r: "ready s = Ctx_Done # From_resultChan e # cs"
    by (simp add: ready_def)
  from assms(1) r have "step p (Select 0) s = Some (run_case Ctx_Done s)"
    by simp
  then show "\<exists>s'. step p (Select 0) s = Some s' \<and> main_taken s' = Some Ctx_Done \<and>
                  resultChan s' = resultChan s \<and> errChan s' = errChan s"
    by (simp add: run_case_fields run_case_chans)
  from assms(1) r have "step p (Select 1) s = Some (run_case (From_resultChan e) s)"
    by simp
  then show "\<exists>s'. step p (Select 1) s = Some s' \<and> main_taken s' = Some (From_resultChan e)"
    by (simp add: run_case_fields)
qed

text \<open>
  The state of the counterexample, at the select statement: choice 0 is the timeout,
  choice 1 the address.
\<close>

theorem select_picks_any_ready_case_witness:
  "\<exists>s s0 s1. exec main [Fetch_returns 0 world_ok, Sends 0, Deadline] (init main) = Some s \<and>
     ctx_done s \<and> resultChan s \<noteq> [] \<and>
     step main (Select 0) s = Some s0 \<and> main_taken s0 = Some Ctx_Done \<and>
     resultChan s0 = resultChan s \<and>
     step main (Select 1) s = Some s1 \<and> main_taken s1 = Some (From_resultChan (hd (resultChan s)))"
proof -
  define T where "T = [Fetch_returns 0 world_ok, Sends 0, Deadline]"
  have "exec main T (init main) \<noteq> None"
    unfolding T_def by code_simp
  then obtain s where s: "exec main T (init main) = Some s"
    by blast
  have "map_option main_taken (exec main T (init main)) = Some None"
    unfolding T_def by code_simp
  with s have m: "main_taken s = None" by simp
  have "map_option ctx_done (exec main T (init main)) = Some True"
    unfolding T_def by code_simp
  with s have d: "ctx_done s" by simp
  have "map_option (length \<circ> resultChan) (exec main T (init main)) = Some 1"
    unfolding T_def by code_simp
  with s obtain e where e: "resultChan s = [e]"
    by (cases "resultChan s") auto
  from select_picks_any_ready_case [OF m e, of main 0, THEN conjunct2, THEN conjunct2] d
  obtain s0 s1 where "step main (Select 0) s = Some s0 \<and> main_taken s0 = Some Ctx_Done \<and>
     resultChan s0 = resultChan s"
     "step main (Select 1) s = Some s1 \<and> main_taken s1 = Some (From_resultChan e)"
    by blast
  with s d e have "exec main T (init main) = Some s \<and>
     ctx_done s \<and> resultChan s \<noteq> [] \<and>
     step main (Select 0) s = Some s0 \<and> main_taken s0 = Some Ctx_Done \<and>
     resultChan s0 = resultChan s \<and>
     step main (Select 1) s = Some s1 \<and> main_taken s1 = Some (From_resultChan (hd (resultChan s)))"
    by simp
  then show ?thesis unfolding T_def by blast
qed

text \<open>
  Claim C3. When \<^verbatim>\<open>buscaBrasilAPI\<close> or \<^verbatim>\<open>buscaViaCEP\<close> returns a nil error, the
  address returned holds the five fields of the decoded response, unchanged, each in its
  place, and the name of the provider in \<^verbatim>\<open>Fonte\<close>; and this is what they return
  whenever the request is created, answered with status 200 and decoded without error.
\<close>

theorem fetch_success_normalized:
  "(NewRequestWithContext w ctx MethodGet (''https://brasilapi.com.br/api/cep/v1/'' @ cep) = Inr req \<and>
    Do w req = Inr resp \<and> StatusCode resp = StatusOK \<and>
    Decode_brasilAPIResponse w (Body resp) = (data, None) \<longrightarrow>
    buscaBrasilAPI w ctx cep =
      (\<lparr>CEP = brasilAPIResponse.Cep data, Logradouro = Street data,
        Bairro = Neighborhood data, Cidade = City data, UF = State data,
        Fonte = ''BrasilAPI''\<rparr>, None)) \<and>
   (NewRequestWithContext w ctx MethodGet (''http://viacep.com.br/ws/'' @ cep @ ''/json/'') = Inr req' \<and>
    Do w req' = Inr resp' \<and> StatusCode resp' = StatusOK \<and>
    Decode_viaCEPResponse w (Body resp') = (data', None) \<longrightarrow>
    buscaViaCEP w ctx cep =
      (\<lparr>CEP = viaCEPResponse.Cep data', Logradouro = viaCEPResponse.Logradouro data',
        Bairro = viaCEPResponse.Bairro data', Cidade = Localidade data', UF = Uf data',
        Fonte = ''ViaCEP''\<rparr>, None)) \<and>
   (snd (buscaBrasilAPI w ctx cep) = None \<longrightarrow>
      (\<exists>rq rs d.
         NewRequestWithContext w ctx MethodGet (''https://brasilapi.com.br/api/cep/v1/'' @ cep) = Inr rq \<and>
         Do w rq = Inr rs \<and> StatusCode rs = StatusOK \<and>
         Decode_brasilAPIResponse w (Body rs) = (d, None) \<and>
         fst (buscaBrasilAPI w ctx cep) =
           \<lparr>CEP = brasilAPIResponse.Cep d, Logradouro = Street d,
            Bairro = Neighborhood d, Cidade = City d, UF = State d,
            Fonte = ''BrasilAPI''\<rparr>)) \<and>
   (snd (buscaViaCEP w ctx cep) = None \<longrightarrow>
      (\<exists>rq rs d.
         NewRequestWithContext w ctx MethodGet (''http://viacep.com.br/ws/'' @ cep @ ''/json/'') = Inr rq \<and>
         Do w rq = Inr rs \<and> StatusCode rs = StatusOK \<and>
         Decode_viaCEPResponse w (Body rs) = (d, None) \<and>
         fst (buscaViaCEP w ctx cep) =
           \<lparr>CEP = viaCEPResponse.Cep d, Logradouro = viaCEPResponse.Logradouro d,
            Bairro = viaCEPResponse.Bairro d, Cidade = Localidade d, UF = Uf d,
            Fonte = ''ViaCEP''\<rparr>))"
proof (intro conjI impI)
  assume "snd (buscaBrasilAPI w ctx cep) = None"
  then show "\<exists>rq rs d.
         NewRequestWithContext w ctx MethodGet (''https://brasilapi.com.br/api/cep/v1/'' @ cep) = Inr rq \<and>
         Do w rq = Inr rs \<and> StatusCode rs = StatusOK \<and>
         Decode_brasilAPIResponse w (Body rs) = (d, None) \<and>
         fst (buscaBrasilAPI w ctx cep) =
           \<lparr>CEP = brasilAPIResponse.Cep d, Logradouro = Street d,
            Bairro = Neighborhood d, Cidade = City d, UF = State d,
            Fonte = ''BrasilAPI''\<rparr>"
    by (auto simp: buscaBrasilAPI_def Let_def split: sum.splits if_splits prod.splits option.splits)
next
  assume "snd (buscaViaCEP w ctx cep) = None"
  then show "\<exists>rq rs d.
         NewRequestWithContext w ctx MethodGet (''http://viacep.com.br/ws/'' @ cep @ ''/json/'') = Inr rq \<and>
         Do w rq = Inr rs \<and> StatusCode rs = StatusOK \<and>
         Decode_viaCEPResponse w (Body rs) = (d, None) \<and>
         fst (buscaViaCEP w ctx cep) =
           \<lparr>CEP = viaCEPResponse.Cep d, Logradouro = viaCEPResponse.Logradouro d,
            Bairro = viaCEPResponse.Bairro d, Cidade = Localidade d, UF = Uf d,
            Fonte = ''ViaCEP''\<rparr>"
    by (auto simp: buscaViaCEP_def Let_def split: sum.splits if_splits prod.splits option.splits)
qed (simp_all add: buscaBrasilAPI_def buscaViaCEP_def Let_def)

text \<open>Both functions on a network that answers 200 with the URL it was asked for.\<close>

theorem fetch_success_normalized_witness:
  "buscaBrasilAPI world_ok Background ''06341650'' =
     (\<lparr>CEP = ''https://brasilapi.com.br/api/cep/v1/06341650'',
       Logradouro = ''Rua Joao Marcos'', Bairro = ''Vila Flora'', Cidade = ''Barueri'',
       UF = ''SP'', Fonte = ''BrasilAPI''\<rparr>, None) \<and>
   buscaViaCEP world_ok Background ''06341650'' =
     (\<lparr>CEP = ''http://viacep.com.br/ws/06341650/json/'',
       Logradouro = ''Rua Joao Marcos'', Bairro = ''Vila Flora'', Cidade = ''Barueri'',
       UF = ''SP'', Fonte = ''ViaCEP''\<rparr>, None)"
  using fetch_success_normalized
    [of world_ok Background "''06341650''"
        "\<lparr>Method = ''GET'', URL = ''https://brasilapi.com.br/api/cep/v1/06341650'', Ctx = Background\<rparr>"
        "\<lparr>StatusCode = 200, Body = ''https://brasilapi.com.br/api/cep/v1/06341650''\<rparr>"
        "\<lparr>brasilAPIResponse.Cep = ''https://brasilapi.com.br/api/cep/v1/06341650'',
          State = ''SP'', City = ''Barueri'', Neighborhood = ''Vila Flora'',
          Street = ''Rua Joao Marcos''\<rparr>"
        "\<lparr>Method = ''GET'', URL = ''http://viacep.com.br/ws/06341650/json/'', Ctx = Background\<rparr>"
        "\<lparr>StatusCode = 200, Body = ''http://viacep.com.br/ws/06341650/json/''\<rparr>"
        "\<lparr>viaCEPResponse.Cep = ''http://viacep.com.br/ws/06341650/json/'',
          viaCEPResponse.Logradouro = ''Rua Joao Marcos'',
          viaCEPResponse.Bairro = ''Vila Flora'', Localidade = ''Barueri'', Uf = ''SP''\<rparr>"]
  by (simp add: world_ok_def MethodGet_def StatusOK_def)

text \<open>
  Claim C4. Whenever \<^verbatim>\<open>buscaBrasilAPI\<close> or \<^verbatim>\<open>buscaViaCEP\<close> returns an error that is
  not nil, the address returned with it is the zero value: every field is the empty
  string, also when the decoder had filled part of the response before it failed.
\<close>

theorem error_with_zero_Endereco:
  "(snd (buscaBrasilAPI w ctx cep) \<noteq> None \<longrightarrow> fst (buscaBrasilAPI w ctx cep) = Endereco_zero) \<and>
   (snd (buscaViaCEP w ctx cep) \<noteq> None \<longrightarrow> fst (buscaViaCEP w ctx cep) = Endereco_zero) \<and>
   CEP Endereco_zero = [] \<and> Logradouro Endereco_zero = [] \<and> Bairro Endereco_zero = [] \<and>
   Cidade Endereco_zero = [] \<and> UF Endereco_zero = [] \<and> Fonte Endereco_zero = []"
  by (auto simp: buscaBrasilAPI_def buscaViaCEP_def Let_def Endereco_zero_def
           split: sum.splits if_splits prod.splits option.splits)

text \<open>A status 404, and a decoder that fails after it has filled the postal code.\<close>

theorem error_with_zero_Endereco_witness:
  "snd (buscaBrasilAPI world_404 Background ''06341650'') \<noteq> None \<and>
   fst (buscaBrasilAPI world_404 Background ''06341650'') = Endereco_zero \<and>
   snd (buscaViaCEP world_bad_json Background ''06341650'') \<noteq> None \<and>
   fst (buscaViaCEP world_bad_json Background ''06341650'') = Endereco_zero"
  using error_with_zero_Endereco [of world_404 Background "''06341650''"]
        error_with_zero_Endereco [of world_bad_json Background "''06341650''"]
  by (simp add: buscaBrasilAPI_def buscaViaCEP_def world_404_def world_bad_json_def
        world_ok_def MethodGet_def StatusOK_def)

text \<open>
  Claim C6, as stated, fails: \<^verbatim>\<open>main\<close> returns after every case of the select
  statement, so the exit status is 0 after a timeout and after an error too.
\<close>

theorem exit_status_nonzero_counterexample:
  "map_option main_taken (exec main [Deadline, Select 0] (init main)) = Some (Some Ctx_Done) \<and>
   map_option exit_status (exec main [Deadline, Select 0] (init main)) = Some (Some 0) \<and>
   map_option main_taken
     (exec main [Fetch_returns 0 world_404, Sends 0, Select 0] (init main)) =
     Some (Some (From_errChan (Error ''BrasilAPI retornou status 404''))) \<and>
   map_option exit_status
     (exec main [Fetch_returns 0 world_404, Sends 0, Select 0] (init main)) = Some (Some 0)"
  by code_simp

text \<open>
  Claim C6, amended. The exit status is 0 whichever case of the select statement was
  taken (timeout, address or error); before \<^verbatim>\<open>main\<close> returns there is none.
\<close>

theorem exit_status_always_zero:
  assumes "exec p t (init p) = Some s"
  shows "(main_taken s = None \<longrightarrow> exit_status s = None) \<and>
         (main_taken s \<noteq> None \<longrightarrow> exit_status s = Some 0)"
  using exec_outcome [OF assms] by auto

text \<open>
  The second goroutine fails with status 404 and \<^verbatim>\<open>main\<close> reports its error.
\<close>

theorem exit_status_always_zero_witness:
  "\<exists>s. exec main [Fetch_returns 1 world_404, Sends 1, Select 0] (init main) = Some s \<and>
       main_taken s \<noteq> None \<and> exit_status s = Some 0"
proof -
  define T where "T = [Fetch_returns 1 world_404, Sends 1, Select 0]"
  have "exec main T (init main) \<noteq> None"
    unfolding T_def by code_simp
  then obtain s where s: "exec main T (init main) = Some s"
    by blast
  have "map_option main_taken (exec main T (init main)) \<noteq> Some None"
    unfolding T_def by code_simp
  with s have m: "main_taken s \<noteq> None" by simp
  with exit_status_always_zero [OF s] have "exit_status s = Some 0"
    by blast
  with s m have "exec main T (init main) = Some s \<and> main_taken s \<noteq> None \<and> exit_status s = Some 0"
    by simp
  then show ?thesis unfolding T_def by blast
qed

text \<open>
  Claim C7. Both channels have capacity 2 and \<^verbatim>\<open>main\<close> starts two goroutines. In
  every schedule of a program whose sources are not more than the capacity, a goroutine
  that has its fetch result and has not sent it yet can execute its send: both buffers
  have room, also after \<^verbatim>\<open>main\<close> has taken its case and reads no more.
\<close>

theorem sends_never_block:
  assumes "exec p t (init p) = Some s" "length (main_sources p) \<le> chan_cap"
    "i < length (goroutines s)" "goroutines s ! i = Sending e err"
  shows "(\<exists>s'. step p (Sends i) s = Some s') \<and>
         length (resultChan s) < chan_cap \<and> length (errChan s) < chan_cap \<and>
         length (main_sources main) \<le> chan_cap"
proof -
  note b = exec_init_chan_bound [OF assms(1)]
  from assms(3,4) have "0 < pending (goroutines s)"
    by (simp add: pending_pos)
  with b assms(2) have "length (resultChan s) < chan_cap" "length (errChan s) < chan_cap"
    by (auto simp: chan_bound_def)
  moreover have "\<exists>s'. step p (Sends i) s = Some s'"
    using Sending_can_send [OF b assms(2,3,4)] .
  moreover have "length (main_sources main) \<le> chan_cap"
    by (simp add: main_def chan_cap_def)
  ultimately show ?thesis by blast
qed

text \<open>
  \<^verbatim>\<open>main\<close> has taken the first goroutine's address; the second goroutine's fetch
  returns afterwards, and its send is not blocked.
\<close>

theorem sends_never_block_witness:
  "\<exists>s s'. exec main [Fetch_returns 0 world_ok, Sends 0, Select 0, Fetch_returns 1 world_404]
            (init main) = Some s \<and>
     main_taken s \<noteq> None \<and> goroutines s ! 1 \<noteq> Returned \<and>
     step main (Sends 1) s = Some s'"
proof -
  define T where "T = [Fetch_returns 0 world_ok, Sends 0, Select 0, Fetch_returns 1 world_404]"
  have "exec main T (init main) \<noteq> None"
    unfolding T_def by code_simp
  then obtain s where s: "exec main T (init main) = Some s"
    by blast
  have "map_option main_taken (exec main T (init main)) \<noteq> Some None"
    unfolding T_def by code_simp
  with s have m: "main_taken s \<noteq> None" by simp
  have "map_option goroutines (exec main T (init main)) =
        Some [Returned, Sending Endereco_zero (Some (Error ''ViaCEP retornou status 404''))]"
    unfolding T_def by code_simp
  with s have g: "goroutines s =
      [Returned, Sending Endereco_zero (Some (Error ''ViaCEP retornou status 404''))]"
    by simp
  have c: "length (main_sources main) \<le> chan_cap"
    by (simp add: main_def chan_cap_def)
  from g have "1 < length (goroutines s)"
    "goroutines s ! 1 = Sending Endereco_zero (Some (Error ''ViaCEP retornou status 404''))"
    by simp_all
  from sends_never_block [OF s c this] obtain s' where "step main (Sends 1) s = Some s'"
    by blast
  with s m g have "exec main T (init main) = Some s \<and>
     main_taken s \<noteq> None \<and> goroutines s ! 1 \<noteq> Returned \<and>
     step main (Sends 1) s = Some s'"
    by simp
  then show ?thesis unfolding T_def by blast
qed

text \<open>
  Claim C8. The second copy of the program is the first: its two fetch functions are
  equal, as functions, to the first copy's, and both \<^verbatim>\<open>main\<close> functions race the
  postal code 06341650 with a timeout of one second (1000000000 ns).
\<close>

theorem copies_equivalent:
  "buscaBrasilAPI_2 = buscaBrasilAPI \<and> buscaViaCEP_2 = buscaViaCEP \<and>
   main_cep main_2 = main_cep main \<and> main_timeout main_2 = main_timeout main \<and>
   main_cep main = ''06341650'' \<and> main_timeout main = 1000000000 \<and>
   main_2 = main"
proof -
  have b: "buscaBrasilAPI_2 = buscaBrasilAPI"
    by (intro ext) (simp add: buscaBrasilAPI_2_def buscaBrasilAPI_def)
  have v: "buscaViaCEP_2 = buscaViaCEP"
    by (intro ext) (simp add: buscaViaCEP_2_def buscaViaCEP_def)
  show ?thesis
    by (simp add: b v main_def main_2_def Second_def)
qed

text \<open>The two copies on a status 404, and on a schedule where only the deadline fires.\<close>

theorem copies_equivalent_witness:
  "buscaBrasilAPI_2 world_404 Background ''06341650'' =
     (Endereco_zero, Some (Error ''BrasilAPI retornou status 404'')) \<and>
   exec main_2 [Deadline, Select 0] (init main_2) = exec main [Deadline, Select 0] (init main)"
proof -
  have "buscaBrasilAPI world_404 Background ''06341650'' =
     (Endereco_zero, Some (Error ''BrasilAPI retornou status 404''))"
    by code_simp
  then show ?thesis using copies_equivalent by simp
qed



text \<open>
  Claim C10, as stated, fails. The program itself does not look at the query, but the
  request is created from the URL, and request creation validates it: for the query
  made of a line feed, both fetch functions return the library's error about the URL
  and the transport is never called, while for the query 06341650 the same network
  reaches the transport. A bad query does surface as an input-validation error.
\<close>

theorem bad_query_rejected_at_request_creation_counterexample:
  "buscaBrasilAPI world_url_check Background [CHR 0x0A] =
     (Endereco_zero, Some (Error ''net/url: invalid control character in URL'')) \<and>
   buscaViaCEP world_url_check Background [CHR 0x0A] =
     (Endereco_zero, Some (Error ''net/url: invalid control character in URL'')) \<and>
   buscaBrasilAPI world_url_check Background ''06341650'' =
     (Endereco_zero, Some (Error ''transport called''))"
  by code_simp

text \<open>
  Claim C10, amended. For every string \<open>cep\<close>, also the empty one, the URL that
  \<^verbatim>\<open>buscaBrasilAPI\<close> gives to request creation is
  \<^verbatim>\<open>https://brasilapi.com.br/api/cep/v1/\<close> followed by \<open>cep\<close> unchanged, and the URL
  that \<^verbatim>\<open>buscaViaCEP\<close> gives is \<^verbatim>\<open>http://viacep.com.br/ws/\<close>, \<open>cep\<close> unchanged,
  \<^verbatim>\<open>/json/\<close>: on the network that answers with the URL it was asked for, that URL is
  read in the result. No other URL is requested: two networks that agree on that URL
  give the same result. The program has no check of its own on \<open>cep\<close>, but a query that
  request creation rejects is returned as that error; every error returned is the one of
  request creation, of the transport or of the decoder, or the status error.
\<close>

theorem cep_verbatim_to_request_creation:
  "buscaBrasilAPI world_ok ctx cep =
     (\<lparr>CEP = ''https://brasilapi.com.br/api/cep/v1/'' @ cep,
       Logradouro = ''Rua Joao Marcos'', Bairro = ''Vila Flora'', Cidade = ''Barueri'',
       UF = ''SP'', Fonte = ''BrasilAPI''\<rparr>, None) \<and>
   buscaViaCEP world_ok ctx cep =
     (\<lparr>CEP = ''http://viacep.com.br/ws/'' @ cep @ ''/json/'',
       Logradouro = ''Rua Joao Marcos'', Bairro = ''Vila Flora'', Cidade = ''Barueri'',
       UF = ''SP'', Fonte = ''ViaCEP''\<rparr>, None) \<and>
   (NewRequestWithContext w ctx MethodGet (''https://brasilapi.com.br/api/cep/v1/'' @ cep) =
      Inl err \<longrightarrow> buscaBrasilAPI w ctx cep = (Endereco_zero, Some err)) \<and>
   (NewRequestWithContext w ctx MethodGet (''http://viacep.com.br/ws/'' @ cep @ ''/json/'') =
      Inl err \<longrightarrow> buscaViaCEP w ctx cep = (Endereco_zero, Some err)) \<and>
   (NewRequestWithContext w' ctx MethodGet (''https://brasilapi.com.br/api/cep/v1/'' @ cep) =
      NewRequestWithContext w ctx MethodGet (''https://brasilapi.com.br/api/cep/v1/'' @ cep) \<and>
    Do w' = Do w \<and> Decode_brasilAPIResponse w' = Decode_brasilAPIResponse w \<longrightarrow>
      buscaBrasilAPI w' ctx cep = buscaBrasilAPI w ctx cep) \<and>
   (NewRequestWithContext w' ctx MethodGet (''http://viacep.com.br/ws/'' @ cep @ ''/json/'') =
      NewRequestWithContext w ctx MethodGet (''http://viacep.com.br/ws/'' @ cep @ ''/json/'') \<and>
    Do w' = Do w \<and> Decode_viaCEPResponse w' = Decode_viaCEPResponse w \<longrightarrow>
      buscaViaCEP w' ctx cep = buscaViaCEP w ctx cep) \<and>
   (\<forall>e. snd (buscaBrasilAPI w ctx cep) = Some e \<longrightarrow>
      NewRequestWithContext w ctx MethodGet (''https://brasilapi.com.br/api/cep/v1/'' @ cep) =
        Inl e \<or>
      (\<exists>req. NewRequestWithContext w ctx MethodGet
                (''https://brasilapi.com.br/api/cep/v1/'' @ cep) = Inr req \<and>
         (Do w req = Inl e \<or>
          (\<exists>resp. Do w req = Inr resp \<and>
             (StatusCode resp \<noteq> StatusOK \<and>
                e = Error (''BrasilAPI retornou status '' @ fmt_d (StatusCode resp)) \<or>
              (\<exists>data. Decode_brasilAPIResponse w (Body resp) = (data, Some e))))))) \<and>
   (\<forall>e. snd (buscaViaCEP w ctx cep) = Some e \<longrightarrow>
      NewRequestWithContext w ctx MethodGet (''http://viacep.com.br/ws/'' @ cep @ ''/json/'') =
        Inl e \<or>
      (\<exists>req. NewRequestWithContext w ctx MethodGet
                (''http://viacep.com.br/ws/'' @ cep @ ''/json/'') = Inr req \<and>
         (Do w req = Inl e \<or>
          (\<exists>resp. Do w req = Inr resp \<and>
             (StatusCode resp \<noteq> StatusOK \<and>
                e = Error (''ViaCEP retornou status '' @ fmt_d (StatusCode resp)) \<or>
              (\<exists>data. Decode_viaCEPResponse w (Body resp) = (data, Some e)))))))"
proof (intro conjI)
  show "buscaBrasilAPI world_ok ctx cep =
     (\<lparr>CEP = ''https://brasilapi.com.br/api/cep/v1/'' @ cep,
       Logradouro = ''Rua Joao Marcos'', Bairro = ''Vila Flora'', Cidade = ''Barueri'',
       UF = ''SP'', Fonte = ''BrasilAPI''\<rparr>, None)"
    by (simp add: buscaBrasilAPI_def world_ok_def StatusOK_def)
  show "buscaViaCEP world_ok ctx cep =
     (\<lparr>CEP = ''http://viacep.com.br/ws/'' @ cep @ ''/json/'',
       Logradouro = ''Rua Joao Marcos'', Bairro = ''Vila Flora'', Cidade = ''Barueri'',
       UF = ''SP'', Fonte = ''ViaCEP''\<rparr>, None)"
    by (simp add: buscaViaCEP_def world_ok_def StatusOK_def)
  show "NewRequestWithContext w ctx MethodGet (''https://brasilapi.com.br/api/cep/v1/'' @ cep) =
      Inl err \<longrightarrow> buscaBrasilAPI w ctx cep = (Endereco_zero, Some err)"
    by (simp add: buscaBrasilAPI_def)
  show "NewRequestWithContext w ctx MethodGet (''http://viacep.com.br/ws/'' @ cep @ ''/json/'') =
      Inl err \<longrightarrow> buscaViaCEP w ctx cep = (Endereco_zero, Some err)"
    by (simp add: buscaViaCEP_def)
  show "NewRequestWithContext w' ctx MethodGet (''https://brasilapi.com.br/api/cep/v1/'' @ cep) =
      NewRequestWithContext w ctx MethodGet (''https://brasilapi.com.br/api/cep/v1/'' @ cep) \<and>
    Do w' = Do w \<and> Decode_brasilAPIResponse w' = Decode_brasilAPIResponse w \<longrightarrow>
      buscaBrasilAPI w' ctx cep = buscaBrasilAPI w ctx cep"
  proof
    assume a: "NewRequestWithContext w' ctx MethodGet (''https://brasilapi.com.br/api/cep/v1/'' @ cep) =
      NewRequestWithContext w ctx MethodGet (''https://brasilapi.com.br/api/cep/v1/'' @ cep) \<and>
      Do w' = Do w \<and> Decode_brasilAPIResponse w' = Decode_brasilAPIResponse w"
    show "buscaBrasilAPI w' ctx cep = buscaBrasilAPI w ctx cep"
      by (simp only: buscaBrasilAPI_def Let_def a [THEN conjunct1]
            a [THEN conjunct2, THEN conjunct1] a [THEN conjunct2, THEN conjunct2])
  qed
  show "NewRequestWithContext w' ctx MethodGet (''http://viacep.com.br/ws/'' @ cep @ ''/json/'') =
      NewRequestWithContext w ctx MethodGet (''http://viacep.com.br/ws/'' @ cep @ ''/json/'') \<and>
    Do w' = Do w \<and> Decode_viaCEPResponse w' = Decode_viaCEPResponse w \<longrightarrow>
      buscaViaCEP w' ctx cep = buscaViaCEP w ctx cep"
  proof
    assume a: "NewRequestWithContext w' ctx MethodGet (''http://viacep.com.br/ws/'' @ cep @ ''/json/'') =
      NewRequestWithContext w ctx MethodGet (''http://viacep.com.br/ws/'' @ cep @ ''/json/'') \<and>
      Do w' = Do w \<and> Decode_viaCEPResponse w' = Decode_viaCEPResponse w"
    show "buscaViaCEP w' ctx cep = buscaViaCEP w ctx cep"
      by (simp only: buscaViaCEP_def Let_def a [THEN conjunct1]
            a [THEN conjunct2, THEN conjunct1] a [THEN conjunct2, THEN conjunct2])
  qed
  show "\<forall>e. snd (buscaBrasilAPI w ctx cep) = Some e \<longrightarrow>
      NewRequestWithContext w ctx MethodGet (''https://brasilapi.com.br/api/cep/v1/'' @ cep) =
        Inl e \<or>
      (\<exists>req. NewRequestWithContext w ctx MethodGet
                (''https://brasilapi.com.br/api/cep/v1/'' @ cep) = Inr req \<and>
         (Do w req = Inl e \<or>
          (\<exists>resp. Do w req = Inr resp \<and>
             (StatusCode resp \<noteq> StatusOK \<and>
                e = Error (''BrasilAPI retornou status '' @ fmt_d (StatusCode resp)) \<or>
              (\<exists>data. Decode_brasilAPIResponse w (Body resp) = (data, Some e))))))"
    by (auto simp: buscaBrasilAPI_def Let_def
             split: sum.splits if_splits prod.splits option.splits)
  show "\<forall>e. snd (buscaViaCEP w ctx cep) = Some e \<longrightarrow>
      NewRequestWithContext w ctx MethodGet (''http://viacep.com.br/ws/'' @ cep @ ''/json/'') =
        Inl e \<or>
      (\<exists>req. NewRequestWithContext w ctx MethodGet
                (''http://viacep.com.br/ws/'' @ cep @ ''/json/'') = Inr req \<and>
         (Do w req = Inl e \<or>
          (\<exists>resp. Do w req = Inr resp \<and>
             (StatusCode resp \<noteq> StatusOK \<and>
                e = Error (''ViaCEP retornou status '' @ fmt_d (StatusCode resp)) \<or>
              (\<exists>data. Decode_viaCEPResponse w (Body resp) = (data, Some e))))))"
    by (auto simp: buscaViaCEP_def Let_def
             split: sum.splits if_splits prod.splits option.splits)
qed

text \<open>
  A query made of a tab, rejected at request creation; and the empty query, on a network
  that knows only the two URLs made from it.
\<close>

theorem cep_verbatim_to_request_creation_witness:
  "buscaBrasilAPI world_url_check Background [CHR 0x09] =
     (Endereco_zero, Some (Error ''net/url: invalid control character in URL'')) \<and>
   buscaViaCEP world_url_check Background [CHR 0x09] =
     (Endereco_zero, Some (Error ''net/url: invalid control character in URL'')) \<and>
   buscaBrasilAPI
     (world_only [''https://brasilapi.com.br/api/cep/v1/'', ''http://viacep.com.br/ws//json/''])
     Background [] =
     (\<lparr>CEP = ''https://brasilapi.com.br/api/cep/v1/'',
       Logradouro = ''Rua Joao Marcos'', Bairro = ''Vila Flora'', Cidade = ''Barueri'',
       UF = ''SP'', Fonte = ''BrasilAPI''\<rparr>, None) \<and>
   buscaViaCEP
     (world_only [''https://brasilapi.com.br/api/cep/v1/'', ''http://viacep.com.br/ws//json/''])
     Background [] =
     (\<lparr>CEP = ''http://viacep.com.br/ws//json/'',
       Logradouro = ''Rua Joao Marcos'', Bairro = ''Vila Flora'', Cidade = ''Barueri'',
       UF = ''SP'', Fonte = ''ViaCEP''\<rparr>, None)"
proof -
  define W where "W = world_only
    [''https://brasilapi.com.br/api/cep/v1/'', ''http://viacep.com.br/ws//json/'']"
  note t = cep_verbatim_to_request_creation
    [of Background "[CHR 0x09]" world_url_check
        "Error ''net/url: invalid control character in URL''"]
  note u = cep_verbatim_to_request_creation [of Background "[]" world_ok _ W]
  have b: "NewRequestWithContext world_url_check Background MethodGet
             (''https://brasilapi.com.br/api/cep/v1/'' @ [CHR 0x09]) =
           Inl (Error ''net/url: invalid control character in URL'')"
    by code_simp
  have v: "NewRequestWithContext world_url_check Background MethodGet
             (''http://viacep.com.br/ws/'' @ [CHR 0x09] @ ''/json/'') =
           Inl (Error ''net/url: invalid control character in URL'')"
    by code_simp
  from t [THEN conjunct2, THEN conjunct2, THEN conjunct1] b
  have 1: "buscaBrasilAPI world_url_check Background [CHR 0x09] =
     (Endereco_zero, Some (Error ''net/url: invalid control character in URL''))"
    by (rule mp)
  from t [THEN conjunct2, THEN conjunct2, THEN conjunct2, THEN conjunct1] v
  have 2: "buscaViaCEP world_url_check Background [CHR 0x09] =
     (Endereco_zero, Some (Error ''net/url: invalid control character in URL''))"
    by (rule mp)
  have wb: "NewRequestWithContext W Background MethodGet (''https://brasilapi.com.br/api/cep/v1/'' @ []) =
      NewRequestWithContext world_ok Background MethodGet (''https://brasilapi.com.br/api/cep/v1/'' @ []) \<and>
    Do W = Do world_ok \<and> Decode_brasilAPIResponse W = Decode_brasilAPIResponse world_ok"
    by (simp add: W_def world_only_def world_ok_def)
  have wv: "NewRequestWithContext W Background MethodGet (''http://viacep.com.br/ws/'' @ [] @ ''/json/'') =
      NewRequestWithContext world_ok Background MethodGet (''http://viacep.com.br/ws/'' @ [] @ ''/json/'') \<and>
    Do W = Do world_ok \<and> Decode_viaCEPResponse W = Decode_viaCEPResponse world_ok"
    by (simp add: W_def world_only_def world_ok_def)
  from u [THEN conjunct2, THEN conjunct2, THEN conjunct2, THEN conjunct2, THEN conjunct1] wb
  have "buscaBrasilAPI W Background [] = buscaBrasilAPI world_ok Background []"
    by (rule mp)
  with u [THEN conjunct1]
  have 3: "buscaBrasilAPI W Background [] =
     (\<lparr>CEP = ''https://brasilapi.com.br/api/cep/v1/'',
       Logradouro = ''Rua Joao Marcos'', Bairro = ''Vila Flora'', Cidade = ''Barueri'',
       UF = ''SP'', Fonte = ''BrasilAPI''\<rparr>, None)"
    by simp
  from u [THEN conjunct2, THEN conjunct2, THEN conjunct2, THEN conjunct2, THEN conjunct2,
          THEN conjunct1] wv
  have "buscaViaCEP W Background [] = buscaViaCEP world_ok Background []"
    by (rule mp)
  with u [THEN conjunct2, THEN conjunct1]
  have 4: "buscaViaCEP W Background [] =
     (\<lparr>CEP = ''http://viacep.com.br/ws//json/'',
       Logradouro = ''Rua Joao Marcos'', Bairro = ''Vila Flora'', Cidade = ''Barueri'',
       UF = ''SP'', Fonte = ''ViaCEP''\<rparr>, None)"
    by simp
  from 1 2 3 4 show ?thesis
    unfolding W_def by blast
qed

end
